theory Spec2Isabelle
  imports Main "HOL-Library.Char_ord" "HOL-Library.List_Lexorder"
begin

section \<open>JavaScript values used by tools/project.js\<close>

text \<open>
  A plain JavaScript object is the list of its own enumerable properties in enumeration
  order, which for the keys of this file (package names, never array indices and never
  \<open>__proto__\<close>) is insertion order. A well-formed object has each key once
  (\<open>distinct (keys obj)\<close>). A value that is a string or \<open>null\<close> is a
  \<open>string option\<close>; a missing property reads as \<open>undefined\<close>, the
  \<open>None\<close> of \<open>map_of\<close>.
\<close>

type_synonym 'v jsobj = "(string \<times> 'v) list"
type_synonym jsstr = "string option"
type_synonym strmap = "jsstr jsobj"

datatype jsval = Null | Str string | Bool bool

text \<open>\<open>_.keys\<close>, \<open>_.values\<close>, \<open>_.has\<close> (own property), \<open>obj[k] = v\<close> and \<open>delete obj[k]\<close>.\<close>

definition keys :: "'v jsobj \<Rightarrow> string list" where
  "keys obj = map fst obj"

definition vals :: "'v jsobj \<Rightarrow> 'v list" where
  "vals obj = map snd obj"

definition has :: "'v jsobj \<Rightarrow> string \<Rightarrow> bool" where
  "has obj k = (k \<in> set (keys obj))"

fun set_prop :: "string \<Rightarrow> 'v \<Rightarrow> 'v jsobj \<Rightarrow> 'v jsobj" where
  "set_prop k v [] = [(k, v)]"
| "set_prop k v ((k', v') # rest) =
     (if k' = k then (k, v) # rest else (k', v') # set_prop k v rest)"

definition delete_prop :: "string \<Rightarrow> 'v jsobj \<Rightarrow> 'v jsobj" where
  "delete_prop k obj = filter (\<lambda>kv. fst kv \<noteq> k) obj"

text \<open>\<open>_.extend(dst, src)\<close>: every property of \<open>src\<close> is assigned on \<open>dst\<close>.\<close>

definition extend_obj :: "'v jsobj \<Rightarrow> 'v jsobj \<Rightarrow> 'v jsobj" where
  "extend_obj dst src = foldl (\<lambda>acc kv. set_prop (fst kv) (snd kv) acc) dst src"

text \<open>
  \<open>_.contains(obj, target)\<close> on a plain object looks for the target among the
  object's \<^emph>\<open>values\<close>; on \<open>null\<close> or \<open>undefined\<close> it is false. On an array it
  is membership.
\<close>

definition contains_obj :: "strmap option \<Rightarrow> string \<Rightarrow> bool" where
  "contains_obj obj target =
     (case obj of None \<Rightarrow> False | Some m \<Rightarrow> Some target \<in> set (vals m))"

definition contains_arr :: "string list option \<Rightarrow> string \<Rightarrow> bool" where
  "contains_arr arr target =
     (case arr of None \<Rightarrow> False | Some xs \<Rightarrow> target \<in> set xs)"

text \<open>\<open>_.difference(xs, ys)\<close>: the elements of \<open>xs\<close> not in \<open>ys\<close>, in the order of \<open>xs\<close>.\<close>

definition difference :: "string list \<Rightarrow> string list \<Rightarrow> string list" where
  "difference xs ys = filter (\<lambda>x. x \<notin> set ys) xs"

text \<open>
  \<open>_.isEqual\<close> on two plain objects: the same number of keys, and every property of
  the first is a property of the second with the same value. Against \<open>null\<close> it is
  false.
\<close>

definition isEqual :: "strmap \<Rightarrow> strmap option \<Rightarrow> bool" where
  "isEqual a b =
     (case b of None \<Rightarrow> False
      | Some m \<Rightarrow> length (keys a) = length (keys m) \<and>
          list_all (\<lambda>kv. map_of m (fst kv) = Some (snd kv)) a)"

text \<open>String concatenation with a value that may be \<open>null\<close> or \<open>undefined\<close>.\<close>

definition show_str :: "jsstr \<Rightarrow> string" where
  "show_str v = (case v of None \<Rightarrow> ''null'' | Some s \<Rightarrow> s)"

definition show_prop :: "strmap \<Rightarrow> string \<Rightarrow> string" where
  "show_prop obj k = (case map_of obj k of None \<Rightarrow> ''undefined'' | Some v \<Rightarrow> show_str v)"

text \<open>\<open>!v\<close> for a property that is a string, \<open>null\<close> or missing.\<close>

definition falsy :: "jsstr option \<Rightarrow> bool" where
  "falsy v = (case v of None \<Rightarrow> True | Some None \<Rightarrow> True | Some (Some s) \<Rightarrow> s = [])"

text \<open>The line feed character.\<close>

definition newline :: string where
  "newline = [CHR 0x0A]"

text \<open>\<open>Array.prototype.join\<close>.\<close>

fun join :: "string \<Rightarrow> string list \<Rightarrow> string" where
  "join sep [] = []"
| "join sep [x] = x"
| "join sep (x # y # rest) = x @ sep @ join sep (y # rest)"

text \<open>
  \<open>path.join\<close> of a root directory and fixed components; the root is taken as already
  normalised. With a root that is \<open>null\<close>, \<open>path.join\<close> throws a TypeError.
\<close>

definition path_join :: "string \<Rightarrow> string list \<Rightarrow> string" where
  "path_join root parts = join ''/'' (root # parts)"

section \<open>Errors, effects and the world outside the Project object\<close>

datatype error =
    NeedRelease        \<comment> \<open>"need to compute release before computing project dependencies."\<close>
  | CouldNotInstall    \<comment> \<open>"Could not install all the requested packages."\<close>
  | ExpectedFile string \<comment> \<open>"Expected a file at ..."\<close>
  | ResolverError      \<comment> \<open>thrown by \<open>catalog.complete.resolveConstraints\<close>\<close>
  | TypeError          \<comment> \<open>a property of \<open>null\<close>, \<open>Object.keys(null)\<close>, \<open>path.join(null, ...)\<close>\<close>

text \<open>Every call that leaves the Project object, in the order it is made.\<close>

datatype event =
    FileRead string
  | FileExists string
  | FileWrite string string
  | DirRead string
  | ProgramInit string string
  | CatalogGetPackage string
  | Resolve "jsval jsobj list" "strmap option"
  | Materialize string jsstr "string list" bool
  | ConsoleLog string jsstr
  | RandomToken nat
  | Stdout string
  | Stderr string

record world =
  fs :: "string jsobj"      \<comment> \<open>the files on disk: path to contents\<close>
  trace :: "event list"
  rng :: nat                \<comment> \<open>how many random tokens have been drawn\<close>

definition emit :: "event list \<Rightarrow> world \<Rightarrow> world" where
  "emit es w = w\<lparr>trace := trace w @ es\<rparr>"

definition writeFileSync :: "string \<Rightarrow> string \<Rightarrow> world \<Rightarrow> world" where
  "writeFileSync file text w = emit [FileWrite file text] (w\<lparr>fs := set_prop file text (fs w)\<rparr>)"

section \<open>The Project object\<close>

record project =
  rootDir :: "string option"
  constraints :: "strmap option"
  combinedConstraints :: "jsval jsobj list option"
  dependencies :: "strmap option"
  packageLoader :: "strmap option"   \<comment> \<open>the \<open>versions\<close> the PackageLoader was built with\<close>
  appId :: "string option"
  viableDepSource :: bool
  depsUpToDate :: bool               \<comment> \<open>\<open>_depsUpToDate\<close>\<close>
  muted :: bool

definition Project :: project where
  "Project = \<lparr> rootDir = None, constraints = None, combinedConstraints = None,
     dependencies = None, packageLoader = None, appId = None,
     viableDepSource = False, depsUpToDate = False, muted = False \<rparr>"

definition setMuted :: "bool \<Rightarrow> project \<Rightarrow> project" where
  "setMuted m p = p\<lparr>muted := m\<rparr>"

section \<open>showPackageChanges\<close>

record spc_options =
  skipPackages :: "string list option"
  onDiskPackages :: "strmap option"

text \<open>
  The body of \<open>_.each(newVersions, ...)\<close>, on the locals \<open>failed\<close>, \<open>messageLog\<close> and
  the lines written to stderr so far.
\<close>

definition notOnDisk :: "strmap option \<Rightarrow> string \<Rightarrow> jsstr \<Rightarrow> bool" where
  "notOnDisk odp packageName version =
     (case odp of None \<Rightarrow> False
      | Some m \<Rightarrow> falsy (map_of m packageName) \<or> map_of m packageName \<noteq> Some version)"

definition changeStep ::
  "strmap \<Rightarrow> strmap \<Rightarrow> spc_options \<Rightarrow> bool \<times> string list \<times> string list \<Rightarrow> string \<times> jsstr
     \<Rightarrow> bool \<times> string list \<times> string list" where
  "changeStep versions newVersions options st kv =
     (case st of (failed, messageLog, err) \<Rightarrow>
      case kv of (packageName, version) \<Rightarrow>
       if failed then st
       else if has versions packageName \<and> map_of versions packageName = Some version then st
       else if notOnDisk (onDiskPackages options) packageName version then
         (True, messageLog,
          err @ [''Package '' @ packageName @ '' has no compatible build for version '' @
                 show_str version @ newline])
       else if contains_arr (skipPackages options) packageName then st
       else if has versions packageName then
         (failed,
          messageLog @ [''  upgraded '' @ packageName @ '' from version '' @
                        show_prop versions packageName @ '' to version '' @
                        show_prop newVersions packageName],
          err)
       else
         (failed,
          messageLog @ [''  added '' @ packageName @ '' at version '' @
                        show_prop newVersions packageName],
          err))"

definition removedMessages :: "strmap \<Rightarrow> strmap \<Rightarrow> spc_options \<Rightarrow> string list" where
  "removedMessages versions newVersions options =
     map (\<lambda>packageName. ''removed dependency on '' @ packageName)
       (filter (\<lambda>packageName. \<not> contains_arr (skipPackages options) packageName)
          (difference (keys versions) (keys newVersions)))"

definition packageChanges ::
  "strmap \<Rightarrow> strmap \<Rightarrow> spc_options \<Rightarrow> bool \<times> string list \<times> string list" where
  "packageChanges versions newVersions options =
     foldl (changeStep versions newVersions options)
       (False, removedMessages versions newVersions options, []) newVersions"

text \<open>
  \<open>showPackageChanges(versions, newVersions, options)\<close>: the return value (0 or 1) and
  the world with what was written to stderr and stdout. \<open>_.keys(null)\<close> throws.
\<close>

definition showPackageChanges ::
  "strmap option \<Rightarrow> strmap \<Rightarrow> spc_options \<Rightarrow> project \<times> world \<Rightarrow> (error + nat) \<times> world" where
  "showPackageChanges versions newVersions options pw =
     (case pw of (p, w) \<Rightarrow>
      case versions of None \<Rightarrow> (Inl TypeError, w)
      | Some vs \<Rightarrow>
        (case packageChanges vs newVersions options of (failed, messageLog, err) \<Rightarrow>
          let w1 = emit (map Stderr err) w in
          if failed then (Inr 1, w1)
          else if \<not> muted p then
            (Inr 0, emit (map (\<lambda>msg. Stdout (msg @ newline)) messageLog) w1)
          else (Inr 0, w1)))"

section \<open>Collaborators\<close>

text \<open>
  The modules \<open>release.js\<close>, \<open>catalog.js\<close>, \<open>tropohouse.js\<close>, \<open>watch.js\<close>,
  \<open>package-source.js\<close>, \<open>files.js\<close>, \<open>utils.js\<close> and \<open>archinfo.js\<close> are used by
  tools/project.js and are not part of it: what they return is a parameter of the model,
  a function of the arguments of the call. A resolver that returns \<open>None\<close> throws.
  Reads and writes of files do not fail, and a missing file reads as no lines.
\<close>

text \<open>
  A call of \<open>tropohouse.default.maybeDownloadPackageForArchitectures\<close> either returns a
  value (true, or false when the store has no build) or throws.
\<close>

datatype outcome = Returned bool | Thrown

record release =
  isProperRelease :: bool
  getPackages :: "string jsobj"

record use =
  package :: string
  constraint :: jsstr

record env =
  release_current :: "release option"
  release_explicit :: bool
  resolveConstraints :: "jsval jsobj list \<Rightarrow> strmap option \<Rightarrow> strmap option"
  getPackage :: "string \<Rightarrow> bool"
  maybeDownloadPackageForArchitectures :: "string \<Rightarrow> jsstr \<Rightarrow> outcome"
  readDirectory :: "string \<Rightarrow> string list"
  initFromPackageDir :: "string \<Rightarrow> string \<Rightarrow> use list list"
  getLinesOrEmpty :: "string option \<Rightarrow> string list"
  splitConstraint :: "string \<Rightarrow> string \<times> jsstr"
  parseVersionConstraint :: "jsstr \<Rightarrow> jsval jsobj"
  host :: string
  randomToken :: "nat \<Rightarrow> string"

text \<open>\<open>files.getLinesOrEmpty(file)\<close> on the contents of the file, if there is one.\<close>

definition readLines :: "env \<Rightarrow> string \<Rightarrow> world \<Rightarrow> string list \<times> world" where
  "readLines env file w = (getLinesOrEmpty env (map_of (fs w) file), emit [FileRead file] w)"

section \<open>Reading the project files\<close>

text \<open>
  The ASCII characters of the whitespace class of the regular expression in
  \<open>trimLine\<close>; its other characters (U+00A0, U+FEFF, U+2028 and the like) are not
  modelled.
\<close>

definition isSpace :: "char \<Rightarrow> bool" where
  "isSpace c = (c \<in> set [CHR '' '', CHR 0x09, CHR 0x0A, CHR 0x0B, CHR 0x0C, CHR 0x0D])"

definition trimLine :: "string \<Rightarrow> string" where
  "trimLine line =
     (let line1 = (if CHR ''#'' \<in> set line then takeWhile (\<lambda>c. c \<noteq> CHR ''#'') line else line)
      in rev (dropWhile isSpace (rev (dropWhile isSpace line1))))"

definition processPerConstraintLines :: "env \<Rightarrow> string list \<Rightarrow> strmap" where
  "processPerConstraintLines env lines =
     foldl (\<lambda>ret line0.
        let line = trimLine line0 in
        if line \<noteq> [] then
          (case splitConstraint env line of (pkg, c) \<Rightarrow> set_prop pkg c ret)
        else ret) [] lines"

definition getConstraintFile :: "project \<Rightarrow> string option" where
  "getConstraintFile p = map_option (\<lambda>r. path_join r [''.meteor'', ''packages'']) (rootDir p)"

definition getVersionsFile :: "project \<Rightarrow> string option" where
  "getVersionsFile p = map_option (\<lambda>r. path_join r [''.meteor'', ''versions'']) (rootDir p)"

definition appIdentifierFile :: "project \<Rightarrow> string option" where
  "appIdentifierFile p = map_option (\<lambda>r. path_join r [''.meteor'', ''identifier'']) (rootDir p)"

definition getProgramsDirectory :: "project \<Rightarrow> string option" where
  "getProgramsDirectory p = map_option (\<lambda>r. path_join r [''programs'']) (rootDir p)"

definition ensureAppIdentifier :: "env \<Rightarrow> project \<times> world \<Rightarrow> error option \<times> project \<times> world" where
  "ensureAppIdentifier env pw =
     (case pw of (p, w) \<Rightarrow>
      case appIdentifierFile p of None \<Rightarrow> (Some TypeError, p, w)
      | Some identifierFile \<Rightarrow>
        let w1 = emit [FileExists identifierFile] w;
            w2 = (if \<not> has (fs w1) identifierFile then
                    let n = rng w1;
                        ident = randomToken env n @ randomToken env (n + 1) @ randomToken env (n + 2)
                    in writeFileSync identifierFile ident
                         (emit [RandomToken n, RandomToken (n + 1), RandomToken (n + 2)]
                            (w1\<lparr>rng := n + 3\<rparr>))
                  else w1);
            w3 = emit [FileExists identifierFile] w2
        in if has (fs w3) identifierFile then
             (None, p\<lparr>appId := map_of (fs w3) identifierFile\<rparr>, emit [FileRead identifierFile] w3)
           else (Some (ExpectedFile identifierFile), p, w3))"

definition setRootDir :: "env \<Rightarrow> string \<Rightarrow> project \<times> world \<Rightarrow> error option \<times> project \<times> world" where
  "setRootDir env dir pw =
     (case pw of (p, w) \<Rightarrow>
      let p1 = p\<lparr>rootDir := Some dir\<rparr> in
      case readLines env (path_join dir [''.meteor'', ''packages'']) w of (clines, w1) \<Rightarrow>
      let p2 = p1\<lparr>constraints := Some (processPerConstraintLines env clines),
                  combinedConstraints := None, packageLoader := None\<rparr> in
      case readLines env (path_join dir [''.meteor'', ''versions'']) w1 of (vlines, w2) \<Rightarrow>
      let p3 = p2\<lparr>dependencies := Some (processPerConstraintLines env vlines)\<rparr> in
      case ensureAppIdentifier env (p3, w2) of
        (Some e, p4, w3) \<Rightarrow> (Some e, p4, w3)
      | (None, p4, w3) \<Rightarrow> (None, p4\<lparr>depsUpToDate := False, viableDepSource := True\<rparr>, w3))"

section \<open>calculateCombinedConstraints\<close>

text \<open>\<open>_.extend({packageName: name}, utils.parseVersionConstraint(constraint))\<close>.\<close>

definition parsedDep :: "env \<Rightarrow> string \<Rightarrow> jsstr \<Rightarrow> jsval jsobj" where
  "parsedDep env name c = extend_obj [(''packageName'', Str name)] (parseVersionConstraint env c)"

text \<open>\<open>use.constraint || null\<close>.\<close>

definition useConstraint :: "use \<Rightarrow> jsstr" where
  "useConstraint u = (if falsy (Some (constraint u)) then None else constraint u)"

definition programName :: "string \<Rightarrow> string" where
  "programName item = take (length item - 1) item"

definition programDeps :: "env \<Rightarrow> string \<Rightarrow> string \<Rightarrow> jsval jsobj list" where
  "programDeps env programsDir item =
     map (\<lambda>u. parsedDep env (package u) (useConstraint u))
       (concat (initFromPackageDir env (programName item) (path_join programsDir [item])))"

definition releaseDep :: "string \<times> string \<Rightarrow> jsval jsobj" where
  "releaseDep kv = [(''packageName'', Str (fst kv)), (''version'', Str (snd kv)),
                    (''weak'', Bool True), (''type'', Str ''exactly'')]"

definition ctlDep :: "jsval jsobj" where
  "ctlDep = [(''packageName'', Str ''ctl''), (''version'', Null)]"

definition calculateCombinedConstraints ::
  "env \<Rightarrow> string jsobj \<Rightarrow> project \<times> world \<Rightarrow> (error + jsval jsobj list) \<times> world" where
  "calculateCombinedConstraints env releasePackages pw =
     (case pw of (p, w) \<Rightarrow>
      let own = map (\<lambda>kv. parsedDep env (fst kv) (snd kv))
                  (case constraints p of None \<Rightarrow> [] | Some cs \<Rightarrow> cs) in
      case getProgramsDirectory p of None \<Rightarrow> (Inl TypeError, w)
      | Some programsDir \<Rightarrow>
        let programsSubdirs = readDirectory env programsDir;
            progs = concat (map (programDeps env programsDir) programsSubdirs);
            rel = map releaseDep releasePackages;
            hook = (if getPackage env ''ctl'' then [ctlDep] else [])
        in (Inr (own @ progs @ rel @ hook),
            emit ([DirRead programsDir] @
                  map (\<lambda>item. ProgramInit (programName item) (path_join programsDir [item]))
                    programsSubdirs @
                  [CatalogGetPackage ''ctl'']) w))"

section \<open>Materialising and recording versions\<close>

record dl_options =
  arch :: jsstr
  verbose :: bool

text \<open>
  The body of \<open>_.each(versions, ...)\<close> in \<open>_ensurePackagesExistOnDisk\<close>, on
  \<open>downloadedPackages\<close> and the events so far. The value that a download returns
  is assigned to \<open>available\<close> and never read: whatever it is, the package is recorded
  as downloaded. A download that throws is logged and leaves \<open>downloadedPackages\<close> as
  it is.
\<close>

fun downloadEach ::
  "env \<Rightarrow> string list \<Rightarrow> bool \<Rightarrow> strmap \<Rightarrow> strmap \<times> event list \<Rightarrow> strmap \<times> event list" where
  "downloadEach env archs vb [] acc = acc"
| "downloadEach env archs vb ((name, version) # rest) (downloadedPackages, es) =
     (case maybeDownloadPackageForArchitectures env name version of
        Returned available \<Rightarrow>
          downloadEach env archs vb rest
            (set_prop name version downloadedPackages, es @ [Materialize name version archs vb])
      | Thrown \<Rightarrow>
          downloadEach env archs vb rest
            (downloadedPackages,
             es @ [Materialize name version archs vb, ConsoleLog name version]))"

definition ensurePackagesExistOnDisk ::
  "env \<Rightarrow> strmap \<Rightarrow> dl_options \<Rightarrow> project \<times> world \<Rightarrow> strmap \<times> world" where
  "ensurePackagesExistOnDisk env versions options pw =
     (case pw of (p, w) \<Rightarrow>
      let a = (if falsy (Some (arch options)) then host env else show_str (arch options));
          vb = (verbose options \<or> \<not> muted p)
      in case downloadEach env [''browser'', a] vb versions ([], []) of
           (downloadedPackages, es) \<Rightarrow> (downloadedPackages, emit es w))"

record rv_options =
  alwaysRecord :: bool

definition versionLine :: "string \<times> jsstr \<Rightarrow> string" where
  "versionLine kv = fst kv @ ''@'' @ show_str (snd kv) @ newline"

definition recordVersions ::
  "env \<Rightarrow> rv_options \<Rightarrow> project \<times> world \<Rightarrow> error option \<times> project \<times> world" where
  "recordVersions env options pw =
     (case pw of (p, w) \<Rightarrow>
      if release_explicit env \<and> \<not> alwaysRecord options then (None, p, w)
      else
        let lines = sort (map versionLine (case dependencies p of None \<Rightarrow> [] | Some d \<Rightarrow> d)) in
        case getVersionsFile p of None \<Rightarrow> (Some TypeError, p, w)
        | Some file \<Rightarrow> (None, p, writeFileSync file (concat lines) w))"

record setv =
  success :: bool
  downloaded :: strmap

definition setVersions ::
  "env \<Rightarrow> strmap \<Rightarrow> rv_options \<Rightarrow> project \<times> world \<Rightarrow> (error + setv) \<times> project \<times> world" where
  "setVersions env newVersions options pw =
     (case pw of (p, w) \<Rightarrow>
      case ensurePackagesExistOnDisk env newVersions \<lparr>arch = None, verbose = False\<rparr> (p, w) of
        (dl, w1) \<Rightarrow>
        if length (keys dl) \<noteq> length (keys newVersions) then
          (Inr \<lparr>success = False, downloaded = dl\<rparr>, p, w1)
        else if alwaysRecord options \<or> \<not> isEqual newVersions (dependencies p) then
          (case recordVersions env options (p\<lparr>dependencies := Some newVersions\<rparr>, w1) of
             (Some e, p2, w2) \<Rightarrow> (Inl e, p2, w2)
           | (None, p2, w2) \<Rightarrow> (Inr \<lparr>success = True, downloaded = dl\<rparr>, p2, w2))
        else (Inr \<lparr>success = True, downloaded = dl\<rparr>, p, w1))"

section \<open>_ensureDepsUpToDate\<close>

definition ensureDepsUpToDate :: "env \<Rightarrow> project \<times> world \<Rightarrow> error option \<times> project \<times> world" where
  "ensureDepsUpToDate env pw =
     (case pw of (p, w) \<Rightarrow>
      case release_current env of None \<Rightarrow> (Some NeedRelease, p, w)
      | Some rel \<Rightarrow>
        if depsUpToDate p then (None, p, w)
        else
          let p1 = p\<lparr>viableDepSource := False\<rparr>;
              releasePackages = (if isProperRelease rel then getPackages rel else [])
          in case calculateCombinedConstraints env releasePackages (p1, w) of
               (Inl e, w1) \<Rightarrow> (Some e, p1, w1)
             | (Inr cc, w1) \<Rightarrow>
               let p2 = p1\<lparr>combinedConstraints := Some cc\<rparr>;
                   w2 = emit [Resolve cc (dependencies p2)] w1
               in case resolveConstraints env cc (dependencies p2) of
                    None \<Rightarrow> (Some ResolverError, p2, w2)
                  | Some newVersions \<Rightarrow>
                    let oldVersions = dependencies p2 in
                    case setVersions env newVersions \<lparr>alwaysRecord = False\<rparr> (p2, w2) of
                      (Inl e, p3, w3) \<Rightarrow> (Some e, p3, w3)
                    | (Inr setV, p3, w3) \<Rightarrow>
                      (case showPackageChanges oldVersions newVersions
                              \<lparr>skipPackages = None, onDiskPackages = Some (downloaded setV)\<rparr>
                              (p3, w3) of
                         (Inl e, w4) \<Rightarrow> (Some e, p3, w4)
                       | (Inr rc, w4) \<Rightarrow>
                         if \<not> success setV then (Some CouldNotInstall, p3, w4)
                         else (None,
                               p3\<lparr>packageLoader := Some newVersions,
                                  depsUpToDate := True, viableDepSource := True\<rparr>,
                               w4)))"

section \<open>forceEditPackages and _removePackageRecords\<close>

text \<open>
  The body of \<open>_.each(names, ...)\<close> of the "add" branch, on \<open>self.constraints\<close> and
  the local \<open>lines\<close>. \<open>self.constraints.length\<close> is the property named \<open>length\<close>
  of the object, and throws on \<open>null\<close>.
\<close>

fun addEach :: "string list \<Rightarrow> strmap option \<Rightarrow> string list \<Rightarrow> error + strmap option \<times> string list" where
  "addEach [] cs lines = Inr (cs, lines)"
| "addEach (name # rest) None lines = Inl TypeError"
| "addEach (name # rest) (Some c) lines =
     (if contains_obj (Some c) name then addEach rest (Some c) lines
      else
        let lines1 = (if falsy (map_of c ''length'') \<and> lines \<noteq> [] then lines @ [''''] else lines)
        in addEach rest (Some (set_prop name None c)) (lines1 @ [name]))"

definition deleteEach :: "string list \<Rightarrow> strmap option \<Rightarrow> error + strmap option" where
  "deleteEach names cs =
     (case cs of
        None \<Rightarrow> (if names = [] then Inr None else Inl TypeError)
      | Some c \<Rightarrow> Inr (Some (foldl (\<lambda>acc name. delete_prop name acc) c names)))"

definition removePackageRecords ::
  "env \<Rightarrow> string list \<Rightarrow> project \<times> world \<Rightarrow> error option \<times> project \<times> world" where
  "removePackageRecords env names pw =
     (case pw of (p, w) \<Rightarrow>
      case deleteEach names (constraints p) of Inl e \<Rightarrow> (Some e, p, w)
      | Inr cs \<Rightarrow>
        let p1 = p\<lparr>constraints := cs\<rparr> in
        case getConstraintFile p1 of None \<Rightarrow> (Some TypeError, p1, w)
        | Some packages \<Rightarrow>
          (case readLines env packages w of (lines, w1) \<Rightarrow>
             let kept = filter (\<lambda>line.
                          takeWhile (\<lambda>c. c \<noteq> CHR ''@'') (trimLine line) \<notin> set names) lines
             in (None, p1, writeFileSync packages (join newline kept @ newline) w1)))"

definition forceEditPackages ::
  "env \<Rightarrow> string list \<Rightarrow> string \<Rightarrow> project \<times> world \<Rightarrow> error option \<times> project \<times> world" where
  "forceEditPackages env names operation pw =
     (case pw of (p, w) \<Rightarrow>
      case getConstraintFile p of None \<Rightarrow> (Some TypeError, p, w)
      | Some appConstraintFile \<Rightarrow>
        (case readLines env appConstraintFile w of (lines, w1) \<Rightarrow>
           if operation = ''add'' then
             (case addEach names (constraints p) lines of
                Inl e \<Rightarrow> (Some e, p, w1)
              | Inr (cs, lines1) \<Rightarrow>
                (None, p\<lparr>constraints := cs, depsUpToDate := False\<rparr>,
                 writeFileSync appConstraintFile (join newline lines1 @ newline) w1))
           else if operation = ''remove'' then
             (case removePackageRecords env names (p, w1) of
                (Some e, p1, w2) \<Rightarrow> (Some e, p1, w2)
              | (None, p1, w2) \<Rightarrow> (None, p1\<lparr>depsUpToDate := False\<rparr>, w2))
           else (None, p\<lparr>depsUpToDate := False\<rparr>, w1)))"

section \<open>Concrete collaborators for running the model\<close>

text \<open>
  \<open>String.prototype.split\<close> on one character, and stand-ins for the helpers of
  \<open>files.js\<close> and \<open>utils.js\<close>: lines are split at line feeds with trailing blank
  lines dropped, a constraint line is split at \<open>@\<close>, and a parsed constraint carries
  the version string, \<open>null\<close> when there is none.
\<close>

fun split_on :: "char \<Rightarrow> string \<Rightarrow> string list" where
  "split_on c [] = [[]]"
| "split_on c (x # xs) =
     (if x = c then [] # split_on c xs
      else (case split_on c xs of [] \<Rightarrow> [[x]] | l # ls \<Rightarrow> (x # l) # ls))"

definition sampleGetLines :: "string option \<Rightarrow> string list" where
  "sampleGetLines text =
     (case text of None \<Rightarrow> []
      | Some t \<Rightarrow> rev (dropWhile (list_all isSpace) (rev (split_on (CHR 0x0A) t))))"

definition sampleSplitConstraint :: "string \<Rightarrow> string \<times> jsstr" where
  "sampleSplitConstraint line =
     (case split_on (CHR ''@'') line of
        [] \<Rightarrow> ([], None) | [m0] \<Rightarrow> (m0, None) | m0 # m1 # rest \<Rightarrow> (m0, Some m1))"

definition sampleParse :: "jsstr \<Rightarrow> jsval jsobj" where
  "sampleParse c = [(''version'', case c of None \<Rightarrow> Null | Some s \<Rightarrow> Str s)]"

text \<open>
  A catalog that has \<open>ctl\<close>, a release with one package, a resolver that answers
  \<open>{a: "1.0.0", b: "2.0.0"}\<close>, a package store where every download succeeds, and no
  sub-programs.
\<close>

definition sampleEnv :: env where
  "sampleEnv = \<lparr>
     release_current = Some \<lparr>isProperRelease = True, getPackages = [(''b'', ''2.0.0'')]\<rparr>,
     release_explicit = False,
     resolveConstraints = (\<lambda>cc prev. Some [(''a'', Some ''1.0.0''), (''b'', Some ''2.0.0'')]),
     getPackage = (\<lambda>name. name = ''ctl''),
     maybeDownloadPackageForArchitectures = (\<lambda>name version. Returned True),
     readDirectory = (\<lambda>dir. []),
     initFromPackageDir = (\<lambda>name dir. []),
     getLinesOrEmpty = sampleGetLines,
     splitConstraint = sampleSplitConstraint,
     parseVersionConstraint = sampleParse,
     host = ''os.linux.x86_64'',
     randomToken = (\<lambda>n. ''tok'') \<rparr>"

text \<open>The same, with a package store whose download of \<open>b\<close> throws.\<close>

definition failingEnv :: env where
  "failingEnv = sampleEnv\<lparr>maybeDownloadPackageForArchitectures :=
     (\<lambda>name version. if name = ''b'' then Thrown else Returned True)\<rparr>"

text \<open>
  The same, with a package store that has no build of \<open>b\<close> and says so by returning
  false, without throwing.
\<close>

definition unavailableEnv :: env where
  "unavailableEnv = sampleEnv\<lparr>maybeDownloadPackageForArchitectures :=
     (\<lambda>name version. if name = ''b'' then Returned False else Returned True)\<rparr>"

text \<open>The same as \<open>sampleEnv\<close>, with no current release.\<close>

definition noReleaseEnv :: env where
  "noReleaseEnv = sampleEnv\<lparr>release_current := None\<rparr>"


text \<open>A disk with the packages file of the app at \<open>/app\<close>, which requires \<open>a@1.0.0\<close>.\<close>

definition sampleWorld :: world where
  "sampleWorld = \<lparr>
     fs = [(''/app/.meteor/packages'', ''# my app'' @ newline @ ''a@1.0.0'' @ newline)],
     trace = [], rng = 0 \<rparr>"

text \<open>The project bound to \<open>/app\<close> on that disk, as \<open>setRootDir\<close> leaves it.\<close>

definition boundProject :: project where
  "boundProject = \<lparr> rootDir = Some ''/app'', constraints = Some [(''a'', Some ''1.0.0'')],
     combinedConstraints = None, dependencies = Some [], packageLoader = None,
     appId = Some ''toktoktok'', viableDepSource = True, depsUpToDate = False, muted = False \<rparr>"

definition boundWorld :: world where
  "boundWorld = snd (snd (setRootDir sampleEnv ''/app'' (Project, sampleWorld)))"

section \<open>Predicates used in the statements\<close>



fun isStdout :: "event \<Rightarrow> bool" where
  "isStdout (Stdout msg) = True"
| "isStdout e = False"

text \<open>The project after a successful recompute with \<open>sampleEnv\<close>, and the disk with it.\<close>

definition freshState :: "project \<times> world" where
  "freshState = snd (ensureDepsUpToDate sampleEnv (boundProject, boundWorld))"

text \<open>The same as \<open>sampleEnv\<close>, run with an explicit release.\<close>

definition pinnedEnv :: env where
  "pinnedEnv = sampleEnv\<lparr>release_explicit := True\<rparr>"

text \<open>The bound project with the dependencies \<open>{b: "1", a: "2"}\<close>.\<close>

definition unsortedProject :: project where
  "unsortedProject = boundProject\<lparr>dependencies := Some [(''b'', Some ''1''), (''a'', Some ''2'')]\<rparr>"

section \<open>Basic facts\<close>

lemma emit_simps:
  "fs (emit es w) = fs w" "rng (emit es w) = rng w" "trace (emit es w) = trace w @ es"
  by (simp_all add: emit_def)

lemma set_prop_fresh: "k \<notin> set (keys obj) \<Longrightarrow> set_prop k v obj = obj @ [(k, v)]"
  by (induction obj) (auto simp: keys_def)

lemma map_of_set_prop: "map_of (set_prop k v obj) k' = (if k' = k then Some v else map_of obj k')"
  by (induction obj) auto

lemma showPackageChanges_fs:
  "fs (snd (showPackageChanges vs nv opts (p, w))) = fs w"
  by (cases vs) (auto simp: showPackageChanges_def Let_def emit_simps split: prod.splits)

lemma showPackageChanges_fst:
  "fst (showPackageChanges (Some v) nv opts (p, w)) =
     Inr (if fst (packageChanges v nv opts) then 1 else 0)"
  by (auto simp: showPackageChanges_def Let_def split: prod.splits)

lemma calc_fs:
  "calculateCombinedConstraints env rp (p, w) = (r, w1) \<Longrightarrow> fs w1 = fs w"
  by (cases "rootDir p")
    (auto simp: calculateCombinedConstraints_def getProgramsDirectory_def Let_def emit_simps)

section \<open>The commit gate of setVersions\<close>

text \<open>
  On an object (each key once) the downloaded packages are the packages whose download
  did not throw, in the order of the object.
\<close>

lemma downloadEach_distinct:
  "distinct (keys nv) \<Longrightarrow> set (keys acc) \<inter> set (keys nv) = {} \<Longrightarrow>
   \<exists>es'. downloadEach env archs vb nv (acc, es) =
     (acc @ filter (\<lambda>kv. maybeDownloadPackageForArchitectures env (fst kv) (snd kv) \<noteq> Thrown) nv, es')"
proof (induction nv arbitrary: acc es)
  case Nil
  then show ?case by simp
next
  case (Cons kv nv)
  obtain name version where kv: "kv = (name, version)" by (cases kv)
  from Cons.prems have fresh: "name \<notin> set (keys acc)" and d: "distinct (keys nv)"
    and notin: "name \<notin> set (keys nv)" and disj: "set (keys acc) \<inter> set (keys nv) = {}"
    by (auto simp: keys_def kv)
  show ?case
  proof (cases "maybeDownloadPackageForArchitectures env name version")
    case (Returned available)
    have "set (keys (acc @ [(name, version)])) \<inter> set (keys nv) = {}"
      using disj notin by (auto simp: keys_def)
    from Cons.IH[OF d this] Returned show ?thesis
      by (simp add: kv set_prop_fresh[OF fresh])
  next
    case Thrown
    from Cons.IH[OF d disj] Thrown show ?thesis
      by (simp add: kv)
  qed
qed

lemma ensurePackages_distinct:
  assumes "distinct (keys nv)"
  shows "\<exists>es. ensurePackagesExistOnDisk env nv options (p, w) =
           (filter (\<lambda>kv. maybeDownloadPackageForArchitectures env (fst kv) (snd kv) \<noteq> Thrown) nv, emit es w)"
proof -
  let ?archs = "[''browser'', if falsy (Some (arch options)) then host env else show_str (arch options)]"
  have "set (keys ([] :: strmap)) \<inter> set (keys nv) = {}" by (simp add: keys_def)
  from downloadEach_distinct[OF assms this, of env ?archs "verbose options \<or> \<not> muted p" "[]"]
  obtain es where "downloadEach env ?archs (verbose options \<or> \<not> muted p) nv ([], []) =
      (filter (\<lambda>kv. maybeDownloadPackageForArchitectures env (fst kv) (snd kv) \<noteq> Thrown) nv, es)"
    by auto
  then show ?thesis
    by (auto simp add: ensurePackagesExistOnDisk_def Let_def)
qed

lemma setVersions_shortfall:
  assumes "distinct (keys newVersions)" and "(name, version) \<in> set newVersions"
    and "maybeDownloadPackageForArchitectures env name version = Thrown"
  shows "\<exists>w'. setVersions env newVersions options (p, w) =
           (Inr \<lparr>success = False, downloaded =
              filter (\<lambda>kv. maybeDownloadPackageForArchitectures env (fst kv) (snd kv) \<noteq> Thrown) newVersions\<rparr>,
            p, w') \<and> fs w' = fs w"
proof -
  let ?ok = "\<lambda>kv. maybeDownloadPackageForArchitectures env (fst kv) (snd kv) \<noteq> Thrown"
  obtain es where dl:
    "ensurePackagesExistOnDisk env newVersions \<lparr>arch = None, verbose = False\<rparr> (p, w) =
      (filter ?ok newVersions, emit es w)"
    using ensurePackages_distinct[OF assms(1)] by blast
  have "length (filter ?ok newVersions) < length newVersions"
    using assms(2,3) by (intro length_filter_less[of "(name, version)"]) auto
  then have "length (keys (filter ?ok newVersions)) \<noteq> length (keys newVersions)"
    by (simp add: keys_def)
  then show ?thesis
    using dl by (simp add: setVersions_def emit_simps)
qed

text \<open>One pass through the stale branch of \<open>_ensureDepsUpToDate\<close>, step by step.\<close>

lemma ensureDeps_stale:
  assumes "release_current env = Some rel"
    and "\<not> depsUpToDate p"
    and "calculateCombinedConstraints env (if isProperRelease rel then getPackages rel else [])
           (p\<lparr>viableDepSource := False\<rparr>, w) = (Inr cc, w1)"
    and "resolveConstraints env cc (dependencies p) = Some newVersions"
    and "setVersions env newVersions \<lparr>alwaysRecord = False\<rparr>
           (p\<lparr>viableDepSource := False, combinedConstraints := Some cc\<rparr>,
            emit [Resolve cc (dependencies p)] w1) = (Inr setV, p3, w3)"
    and "showPackageChanges (dependencies p) newVersions
           \<lparr>skipPackages = None, onDiskPackages = Some (downloaded setV)\<rparr> (p3, w3) = (r, w4)"
  shows "ensureDepsUpToDate env (p, w) =
     (case r of Inl e \<Rightarrow> (Some e, p3, w4)
      | Inr rc \<Rightarrow> if \<not> success setV then (Some CouldNotInstall, p3, w4)
                  else (None, p3\<lparr>packageLoader := Some newVersions,
                                  depsUpToDate := True, viableDepSource := True\<rparr>, w4))"
  using assms by (simp add: ensureDepsUpToDate_def Let_def)

text \<open>
  When the resolver's version map has a package whose download throws, \<open>setVersions\<close>
  returns \<open>success = false\<close> and leaves the project (so its dependencies) and the files
  on disk (so the versions file) as they were; \<open>_ensureDepsUpToDate\<close> then throws, with
  \<open>_depsUpToDate\<close> still false, the dependencies and the files on disk unchanged.
\<close>

lemma thrown_download_commits_nothing:
  assumes "distinct (keys newVersions)"
    and "(name, version) \<in> set newVersions"
    and "maybeDownloadPackageForArchitectures env name version = Thrown"
    and "release_current env = Some rel"
    and "\<not> depsUpToDate p"
    and "calculateCombinedConstraints env (if isProperRelease rel then getPackages rel else [])
           (p\<lparr>viableDepSource := False\<rparr>, w) = (Inr cc, w1)"
    and "resolveConstraints env cc (dependencies p) = Some newVersions"
  shows "(\<exists>dl w'. setVersions env newVersions options (p, w) =
              (Inr \<lparr>success = False, downloaded = dl\<rparr>, p, w') \<and> fs w' = fs w) \<and>
         (\<exists>p' w'. ensureDepsUpToDate env (p, w) =
              (Some (if dependencies p = None then TypeError else CouldNotInstall), p', w') \<and>
            \<not> depsUpToDate p' \<and> dependencies p' = dependencies p \<and> fs w' = fs w)"
proof
  from setVersions_shortfall[OF assms(1-3)]
  show "\<exists>dl w'. setVersions env newVersions options (p, w) =
              (Inr \<lparr>success = False, downloaded = dl\<rparr>, p, w') \<and> fs w' = fs w"
    by blast
next
  let ?p2 = "p\<lparr>viableDepSource := False, combinedConstraints := Some cc\<rparr>"
  let ?w2 = "emit [Resolve cc (dependencies p)] w1"
  let ?dl = "filter (\<lambda>kv. maybeDownloadPackageForArchitectures env (fst kv) (snd kv) \<noteq> Thrown) newVersions"
  let ?sv = "\<lparr>success = False, downloaded = ?dl\<rparr>"
  let ?opts = "\<lparr>skipPackages = None, onDiskPackages = Some (downloaded ?sv)\<rparr>"
  have w1: "fs w1 = fs w" using calc_fs[OF assms(6)] .
  obtain w3 where sv: "setVersions env newVersions \<lparr>alwaysRecord = False\<rparr> (?p2, ?w2) =
      (Inr ?sv, ?p2, w3)" and w3: "fs w3 = fs ?w2"
    using setVersions_shortfall[OF assms(1-3), of "\<lparr>alwaysRecord = False\<rparr>" ?p2 ?w2] by blast
  obtain r w4 where spc:
    "showPackageChanges (dependencies p) newVersions ?opts (?p2, w3) = (r, w4)"
    by (cases "showPackageChanges (dependencies p) newVersions ?opts (?p2, w3)")
  have w4: "fs w4 = fs w"
    using showPackageChanges_fs[of "dependencies p" newVersions ?opts ?p2 w3] spc w3 w1
    by (simp add: emit_simps)
  have r: "r = (if dependencies p = None then Inl TypeError
                else Inr (if fst (packageChanges (the (dependencies p)) newVersions ?opts)
                          then 1 else 0))"
  proof (cases "dependencies p")
    case None
    then show ?thesis using spc by (simp add: showPackageChanges_def)
  next
    case (Some old)
    then show ?thesis
      using spc showPackageChanges_fst[of old newVersions ?opts ?p2 w3] by simp
  qed
  have "ensureDepsUpToDate env (p, w) =
      (Some (if dependencies p = None then TypeError else CouldNotInstall), ?p2, w4)"
    using ensureDeps_stale[OF assms(4-7) sv spc] r by simp
  then show "\<exists>p' w'. ensureDepsUpToDate env (p, w) =
              (Some (if dependencies p = None then TypeError else CouldNotInstall), p', w') \<and>
            \<not> depsUpToDate p' \<and> dependencies p' = dependencies p \<and> fs w' = fs w"
    using assms(5) w4 by simp
qed

lemma thrown_download_commits_nothing_example:
  "distinct (keys [(''a'', Some ''1.0.0''), (''b'', Some ''2.0.0'')]) \<and>
   maybeDownloadPackageForArchitectures failingEnv ''b'' (Some ''2.0.0'') = Thrown \<and>
   \<not> depsUpToDate boundProject \<and>
   (\<exists>dl w'. setVersions failingEnv [(''a'', Some ''1.0.0''), (''b'', Some ''2.0.0'')]
        \<lparr>alwaysRecord = True\<rparr> (boundProject, boundWorld) =
        (Inr \<lparr>success = False, downloaded = dl\<rparr>, boundProject, w') \<and> fs w' = fs boundWorld) \<and>
   (\<exists>p' w'. ensureDepsUpToDate failingEnv (boundProject, boundWorld) =
        (Some (if dependencies boundProject = None then TypeError else CouldNotInstall), p', w') \<and>
      \<not> depsUpToDate p' \<and> dependencies p' = dependencies boundProject \<and>
      fs w' = fs boundWorld)"
proof -
  let ?nv = "[(''a'', Some ''1.0.0''), (''b'', Some ''2.0.0'')] :: strmap"
  let ?rel = "\<lparr>isProperRelease = True, getPackages = [(''b'', ''2.0.0'')]\<rparr>"
  let ?cc = "[[(''packageName'', Str ''a''), (''version'', Str ''1.0.0'')],
              [(''packageName'', Str ''b''), (''version'', Str ''2.0.0''),
               (''weak'', Bool True), (''type'', Str ''exactly'')],
              [(''packageName'', Str ''ctl''), (''version'', Null)]]"
  let ?w1 = "emit [DirRead ''/app/programs'', CatalogGetPackage ''ctl''] boundWorld"
  have h1: "distinct (keys ?nv)" by code_simp
  have h2: "(''b'', Some ''2.0.0'') \<in> set ?nv" by simp
  have h3: "maybeDownloadPackageForArchitectures failingEnv ''b'' (Some ''2.0.0'') = Thrown"
    by code_simp
  have h4: "release_current failingEnv = Some ?rel" by code_simp
  have h5: "\<not> depsUpToDate boundProject" by code_simp
  have h6: "calculateCombinedConstraints failingEnv
      (if isProperRelease ?rel then getPackages ?rel else [])
      (boundProject\<lparr>viableDepSource := False\<rparr>, boundWorld) = (Inr ?cc, ?w1)"
    by code_simp
  have h7: "resolveConstraints failingEnv ?cc (dependencies boundProject) = Some ?nv"
    by code_simp
  from thrown_download_commits_nothing[OF h1 h2 h3 h4 h5 h6 h7, of "\<lparr>alwaysRecord = True\<rparr>"]
    h1 h3 h5
  show ?thesis by blast
qed

text \<open>
  C1. The resolver answers \<open>{a: "1.0.0", b: "2.0.0"}\<close> and the package store has no
  build of \<open>b\<close>, which it reports by returning false from the download. The returned
  value is not read, so \<open>b\<close> counts as downloaded: \<open>setVersions\<close> returns
  \<open>success = true\<close> with \<open>b\<close> among the downloaded packages, replaces the
  dependencies (before: none) and writes the versions file (before: missing), and
  \<open>_ensureDepsUpToDate\<close> returns normally with \<open>_depsUpToDate\<close> true.
\<close>

theorem unavailable_download_is_committed:
  "maybeDownloadPackageForArchitectures unavailableEnv ''b'' (Some ''2.0.0'') = Returned False \<and>
   dependencies boundProject = Some [] \<and>
   map_of (fs boundWorld) ''/app/.meteor/versions'' = None \<and>
   fst (setVersions unavailableEnv [(''a'', Some ''1.0.0''), (''b'', Some ''2.0.0'')]
          \<lparr>alwaysRecord = False\<rparr> (boundProject, boundWorld)) =
     Inr \<lparr>success = True, downloaded = [(''a'', Some ''1.0.0''), (''b'', Some ''2.0.0'')]\<rparr> \<and>
   dependencies (fst (snd (setVersions unavailableEnv [(''a'', Some ''1.0.0''), (''b'', Some ''2.0.0'')]
          \<lparr>alwaysRecord = False\<rparr> (boundProject, boundWorld)))) =
     Some [(''a'', Some ''1.0.0''), (''b'', Some ''2.0.0'')] \<and>
   map_of (fs (snd (snd (setVersions unavailableEnv [(''a'', Some ''1.0.0''), (''b'', Some ''2.0.0'')]
          \<lparr>alwaysRecord = False\<rparr> (boundProject, boundWorld))))) ''/app/.meteor/versions'' =
     Some (''a@1.0.0'' @ newline @ ''b@2.0.0'' @ newline) \<and>
   fst (ensureDepsUpToDate unavailableEnv (boundProject, boundWorld)) = None \<and>
   depsUpToDate (fst (snd (ensureDepsUpToDate unavailableEnv (boundProject, boundWorld)))) \<and>
   dependencies (fst (snd (ensureDepsUpToDate unavailableEnv (boundProject, boundWorld)))) =
     Some [(''a'', Some ''1.0.0''), (''b'', Some ''2.0.0'')] \<and>
   map_of (fs (snd (snd (ensureDepsUpToDate unavailableEnv (boundProject, boundWorld)))))
      ''/app/.meteor/versions'' =
     Some (''a@1.0.0'' @ newline @ ''b@2.0.0'' @ newline)"
  by code_simp

text \<open>
  C2. After a call of \<open>_ensureDepsUpToDate\<close> that returns normally, \<open>_depsUpToDate\<close> is
  true, and a second call with the same collaborators returns normally and leaves the
  project and the world as they are: the trace has no new resolver call, download, file
  read or file write, and the files on disk are the same.
\<close>

theorem ensureDepsUpToDate_idempotent:
  assumes "ensureDepsUpToDate env (p, w) = (None, p', w')"
  shows "depsUpToDate p' \<and> ensureDepsUpToDate env (p', w') = (None, p', w')"
proof -
  from assms obtain rel where rel: "release_current env = Some rel"
    by (cases "release_current env") (auto simp: ensureDepsUpToDate_def)
  have fresh: "depsUpToDate p'"
    using assms rel
    by (auto simp: ensureDepsUpToDate_def Let_def
        split: if_splits prod.splits sum.splits option.splits)
  then show ?thesis using rel by (simp add: ensureDepsUpToDate_def)
qed

theorem ensureDepsUpToDate_idempotent_witness:
  "fst (ensureDepsUpToDate sampleEnv (boundProject, boundWorld)) = None \<and>
   \<not> depsUpToDate boundProject \<and>
   depsUpToDate (fst freshState) \<and>
   ensureDepsUpToDate sampleEnv freshState = (None, freshState)"
proof -
  have h: "ensureDepsUpToDate sampleEnv (boundProject, boundWorld) =
      (None, fst freshState, snd freshState)"
    by code_simp
  have "\<not> depsUpToDate boundProject" by code_simp
  with ensureDepsUpToDate_idempotent[OF h] h show ?thesis by simp
qed

section \<open>The staleness flag and viableDepSource\<close>

text \<open>
  C3. A project is bound to \<open>/app\<close> (so \<open>viableDepSource\<close> is true) and then
  recomputed with a package store that has no build of \<open>b\<close>. The recompute throws
  "Could not install all the requested packages."; after it the root directory is still
  set, no recompute is running, and \<open>viableDepSource\<close> is false: only the path that
  returns normally sets the flag again.
\<close>

theorem failed_recompute_leaves_viableDepSource_false:
  "fst (setRootDir failingEnv ''/app'' (Project, sampleWorld)) = None \<and>
   viableDepSource (fst (snd (setRootDir failingEnv ''/app'' (Project, sampleWorld)))) \<and>
   fst (ensureDepsUpToDate failingEnv (snd (setRootDir failingEnv ''/app'' (Project, sampleWorld))))
     = Some CouldNotInstall \<and>
   rootDir (fst (snd (ensureDepsUpToDate failingEnv
      (snd (setRootDir failingEnv ''/app'' (Project, sampleWorld)))))) = Some ''/app'' \<and>
   viableDepSource (fst (snd (ensureDepsUpToDate failingEnv
      (snd (setRootDir failingEnv ''/app'' (Project, sampleWorld)))))) = False"
  by code_simp

text \<open>
  C7, as the code has it. The check for a current release comes before the check of
  \<open>_depsUpToDate\<close>: here the project is up to date and there is no current release, and
  the call throws "need to compute release before computing project dependencies."
  (changing nothing).
\<close>

theorem fresh_without_release_counterexample:
  "depsUpToDate (fst freshState) \<and>
   ensureDepsUpToDate noReleaseEnv freshState = (Some NeedRelease, freshState)"
  by code_simp

text \<open>
  C7, amended. On a project whose dependencies are up to date, \<open>_ensureDepsUpToDate\<close>
  changes no field of the project and nothing in the world (no resolver call, no
  download, no file read or write); it returns normally when there is a current release
  and throws the missing-release error when there is none.
\<close>

theorem ensureDepsUpToDate_fresh:
  assumes "depsUpToDate p"
  shows "ensureDepsUpToDate env (p, w) =
     (if release_current env = None then Some NeedRelease else None, p, w)"
  using assms by (cases "release_current env") (simp_all add: ensureDepsUpToDate_def)

theorem ensureDepsUpToDate_fresh_witness:
  "depsUpToDate (fst freshState) \<and>
   ensureDepsUpToDate sampleEnv (fst freshState, snd freshState) =
     (if release_current sampleEnv = None then Some NeedRelease else None, fst freshState, snd freshState)"
proof -
  have h: "depsUpToDate (fst freshState)" by code_simp    
  from ensureDepsUpToDate_fresh[OF h] h show ?thesis by blast
qed

section \<open>Recording versions\<close>

text \<open>
  C8. With an explicit release and no \<open>alwaysRecord\<close>, \<open>_recordVersions\<close> returns
  with the project and the world (the files, the trace) as they were. With
  \<open>alwaysRecord\<close>, or with no explicit release, on a project with a root directory it
  writes the versions file: the sorted \<open>name@version\<close> lines of the dependencies.
\<close>

theorem recordVersions_explicit_release:
  "(release_explicit env \<and> \<not> alwaysRecord options \<longrightarrow>
      recordVersions env options (p, w) = (None, p, w)) \<and>
   ((alwaysRecord options \<or> \<not> release_explicit env) \<and> rootDir p = Some r \<and>
    dependencies p = Some deps \<longrightarrow>
      (\<exists>w'. recordVersions env options (p, w) = (None, p, w') \<and>
         map_of (fs w') (path_join r [''.meteor'', ''versions'']) =
           Some (concat (sort (map versionLine deps))) \<and>
         trace w' = trace w @ [FileWrite (path_join r [''.meteor'', ''versions''])
                                 (concat (sort (map versionLine deps)))]))"
  by (auto simp: recordVersions_def getVersionsFile_def Let_def writeFileSync_def emit_def
      map_of_set_prop)

theorem recordVersions_explicit_release_witness:
  "recordVersions pinnedEnv \<lparr>alwaysRecord = False\<rparr> (unsortedProject, boundWorld) =
     (None, unsortedProject, boundWorld) \<and>
   (\<exists>w'. recordVersions pinnedEnv \<lparr>alwaysRecord = True\<rparr> (unsortedProject, boundWorld) =
       (None, unsortedProject, w') \<and>
     map_of (fs w') ''/app/.meteor/versions'' =
       Some (''a@2'' @ newline @ ''b@1'' @ newline))"
proof -
  have h1: "release_explicit pinnedEnv \<and> \<not> alwaysRecord \<lparr>alwaysRecord = False\<rparr>" by code_simp
  have h2: "(alwaysRecord \<lparr>alwaysRecord = True\<rparr> \<or> \<not> release_explicit pinnedEnv) \<and>
     rootDir unsortedProject = Some ''/app'' \<and>
     dependencies unsortedProject = Some [(''b'', Some ''1''), (''a'', Some ''2'')]" by code_simp
  from recordVersions_explicit_release[of pinnedEnv "\<lparr>alwaysRecord = False\<rparr>" unsortedProject boundWorld] h1
  have a: "recordVersions pinnedEnv \<lparr>alwaysRecord = False\<rparr> (unsortedProject, boundWorld) =
     (None, unsortedProject, boundWorld)" by blast
  from recordVersions_explicit_release[of pinnedEnv "\<lparr>alwaysRecord = True\<rparr>" unsortedProject boundWorld "''/app''"
        "[(''b'', Some ''1''), (''a'', Some ''2'')]"] h2
  have b: "\<exists>w'. recordVersions pinnedEnv \<lparr>alwaysRecord = True\<rparr> (unsortedProject, boundWorld) =
       (None, unsortedProject, w') \<and>
     map_of (fs w') (path_join ''/app'' [''.meteor'', ''versions'']) =
       Some (concat (sort (map versionLine [(''b'', Some ''1''), (''a'', Some ''2'')])))" by blast
  have vfile: "path_join ''/app'' [''.meteor'', ''versions''] = ''/app/.meteor/versions''"
    by code_simp
  have sorted_lines:
    "concat (sort (map versionLine [(''b'', Some ''1''), (''a'', Some ''2'')])) =
       ''a@2'' @ newline @ ''b@1'' @ newline"
    by code_simp
  from a b show ?thesis unfolding vfile sorted_lines by blast
qed

section \<open>Forced edits of the packages file\<close>

text \<open>
  C4. The project requires \<open>a@1.0.0\<close>, and \<open>a\<close> is forced in with "add". The
  guard against duplicates looks for the name among the \<^emph>\<open>values\<close> of the constraints,
  so it does not see the key \<open>a\<close>: a blank line and a second line \<open>a\<close> are appended to
  the packages file, and the constraint of \<open>a\<close> becomes \<open>null\<close>.
\<close>

theorem forceEdit_add_of_present_key:
  "snd (setRootDir sampleEnv ''/app'' (Project, sampleWorld)) = (boundProject, boundWorld) \<and>
   constraints boundProject = Some [(''a'', Some ''1.0.0'')] \<and>
   map_of (fs boundWorld) ''/app/.meteor/packages'' =
     Some (''# my app'' @ newline @ ''a@1.0.0'' @ newline) \<and>
   fst (forceEditPackages sampleEnv [''a''] ''add'' (boundProject, boundWorld)) = None \<and>
   constraints (fst (snd (forceEditPackages sampleEnv [''a''] ''add'' (boundProject, boundWorld))))
     = Some [(''a'', None)] \<and>
   map_of (fs (snd (snd (forceEditPackages sampleEnv [''a''] ''add'' (boundProject, boundWorld)))))
      ''/app/.meteor/packages'' =
     Some (''# my app'' @ newline @ ''a@1.0.0'' @ newline @ newline @ ''a'' @ newline)"
  by code_simp

lemma delete_prop_fresh: "k \<notin> set (keys obj) \<Longrightarrow> delete_prop k obj = obj"
  by (induction obj) (auto simp: keys_def delete_prop_def)

lemma delete_prop_added: "k \<notin> set (keys obj) \<Longrightarrow> delete_prop k (obj @ [(k, v)]) = obj"
  using delete_prop_fresh[of k obj] by (simp add: delete_prop_def)

text \<open>
  C9. On a project with a root directory whose constraints do not have the key \<open>a\<close>,
  forcing \<open>a\<close> in with "add" and then out with "remove" both return normally and leave
  the constraints as they were before the two calls (the same keys, values and order);
  the only field of the project that may differ is \<open>_depsUpToDate\<close>, now false.
\<close>

theorem add_then_remove_restores:
  assumes "rootDir p = Some r" and "constraints p = Some cs" and "\<not> has cs a"
  shows "\<exists>p1 w1 p2 w2.
     forceEditPackages env [a] ''add'' (p, w) = (None, p1, w1) \<and>
     forceEditPackages env [a] ''remove'' (p1, w1) = (None, p2, w2) \<and>
     constraints p2 = constraints p \<and> p2 = p\<lparr>depsUpToDate := False\<rparr>"
proof -
  from assms(3) have fresh: "a \<notin> set (keys cs)" by (simp add: has_def)
  have del: "delete_prop a (set_prop a None cs) = cs"
    by (simp add: set_prop_fresh[OF fresh] delete_prop_added[OF fresh])
  have del': "delete_prop a cs = cs" by (rule delete_prop_fresh[OF fresh])
  obtain cs1 lines1 where add: "addEach [a] (Some cs)
      (fst (readLines env (path_join r [''.meteor'', ''packages'']) w)) = Inr (Some cs1, lines1)"
    and cs1: "delete_prop a cs1 = cs"
    using del del' by (cases "contains_obj (Some cs) a") (auto simp: Let_def)
  show ?thesis
    using assms(1,2) add cs1
    by (simp add: forceEditPackages_def removePackageRecords_def getConstraintFile_def
        deleteEach_def Let_def readLines_def split: prod.splits)
qed

theorem add_then_remove_restores_witness:
  "\<not> has [(''a'', Some ''1.0.0'')] ''c'' \<and>
   (\<exists>p1 w1 p2 w2.
     forceEditPackages sampleEnv [''c''] ''add'' (boundProject, boundWorld) = (None, p1, w1) \<and>
     forceEditPackages sampleEnv [''c''] ''remove'' (p1, w1) = (None, p2, w2) \<and>
     constraints p2 = constraints boundProject \<and> p2 = boundProject\<lparr>depsUpToDate := False\<rparr>)"
proof -
  have h1: "rootDir boundProject = Some ''/app''" by code_simp
  have h2: "constraints boundProject = Some [(''a'', Some ''1.0.0'')]" by code_simp
  have h3: "\<not> has [(''a'', Some ''1.0.0'')] ''c''" by code_simp
  from add_then_remove_restores[OF h1 h2 h3] h3 show ?thesis by blast
qed

section \<open>The ctl hook of calculateCombinedConstraints\<close>












section \<open>Reporting package changes\<close>

text \<open>
  C6. From \<open>{a: "1", b: "1"}\<close> to \<open>{a: "2", c: "1"}\<close>, with no skip list and no
  on-disk map, the message log is: \<open>b\<close> removed, then \<open>a\<close> upgraded from 1 to 2, then
  \<open>c\<close> added, and nothing else; nothing fails, and an unmuted project prints exactly
  these three lines and returns 0.
\<close>

theorem showPackageChanges_diff_example:
  "packageChanges [(''a'', Some ''1''), (''b'', Some ''1'')] [(''a'', Some ''2''), (''c'', Some ''1'')]
      \<lparr>skipPackages = None, onDiskPackages = None\<rparr> =
     (False,
      [''removed dependency on b'', ''  upgraded a from version 1 to version 2'',
       ''  added c at version 1''], []) \<and>
   showPackageChanges (Some [(''a'', Some ''1''), (''b'', Some ''1'')])
      [(''a'', Some ''2''), (''c'', Some ''1'')]
      \<lparr>skipPackages = None, onDiskPackages = None\<rparr> (setMuted False p, w) =
     (Inr 0, emit [Stdout (''removed dependency on b'' @ newline),
                   Stdout (''  upgraded a from version 1 to version 2'' @ newline),
                   Stdout (''  added c at version 1'' @ newline)] w)"
proof -
  have pc: "packageChanges [(''a'', Some ''1''), (''b'', Some ''1'')] [(''a'', Some ''2''), (''c'', Some ''1'')]
      \<lparr>skipPackages = None, onDiskPackages = None\<rparr> =
     (False,
      [''removed dependency on b'', ''  upgraded a from version 1 to version 2'',
       ''  added c at version 1''], [])"
    by code_simp
  show ?thesis
    unfolding pc by (simp add: showPackageChanges_def pc setMuted_def emit_def)
qed

text \<open>
  C10. The value that \<open>showPackageChanges\<close> returns does not depend on the muted flag
  of the project, and neither do the files nor any effect other than the lines printed
  to stdout.
\<close>

theorem showPackageChanges_muted_independent:
  "fst (showPackageChanges versions newVersions options (setMuted m p, w)) =
     fst (showPackageChanges versions newVersions options (p, w)) \<and>
   fs (snd (showPackageChanges versions newVersions options (setMuted m p, w))) =
     fs (snd (showPackageChanges versions newVersions options (p, w))) \<and>
   filter (\<lambda>e. \<not> isStdout e)
       (trace (snd (showPackageChanges versions newVersions options (setMuted m p, w)))) =
     filter (\<lambda>e. \<not> isStdout e)
       (trace (snd (showPackageChanges versions newVersions options (p, w))))"
  by (cases versions)
    (auto simp: showPackageChanges_def setMuted_def Let_def emit_def filter_empty_conv
      split: prod.splits)

theorem showPackageChanges_muted_independent_witness:
  "fst (showPackageChanges (Some [(''a'', Some ''1''), (''b'', Some ''1'')])
          [(''a'', Some ''2''), (''c'', Some ''1'')]
          \<lparr>skipPackages = None, onDiskPackages = None\<rparr> (setMuted True boundProject, boundWorld)) =
     fst (showPackageChanges (Some [(''a'', Some ''1''), (''b'', Some ''1'')])
          [(''a'', Some ''2''), (''c'', Some ''1'')]
          \<lparr>skipPackages = None, onDiskPackages = None\<rparr> (boundProject, boundWorld))"
  using showPackageChanges_muted_independent[of "Some [(''a'', Some ''1''), (''b'', Some ''1'')]"
      "[(''a'', Some ''2''), (''c'', Some ''1'')]"
      "\<lparr>skipPackages = None, onDiskPackages = None\<rparr>" True boundProject boundWorld]
  by blast

end
